theory Spec2Isabelle
  imports Main "HOL-Library.Word"
begin

section \<open>Pointer authentication of constant function pointers (CGPointerAuth.cpp)\<close>

text \<open>
  A shallow embedding of \<^verbatim>\<open>clang/lib/CodeGen/CGPointerAuth.cpp\<close>. The functions of that
  file are translated one by one, under their own names. Every \<^verbatim>\<open>assert\<close>, \<^verbatim>\<open>cast<>\<close> and
  \<^verbatim>\<open>cast_or_null<>\<close> of the source is a branch of the model that returns an error value:
  the model is the build in which assertions are compiled in, where a failed assertion
  aborts the compilation and the function returns nothing.
\<close>

subsection \<open>Errors\<close>

text \<open>One constructor for each place of the source that can abort.\<close>

datatype error =
    AddressDiscriminatedSchema      \<comment> \<open>line 27: function pointers cannot use address-specific discrimination\<close>
  | OtherDiscriminationSchema       \<comment> \<open>line 30: function pointers don't support any discrimination yet\<close>
  | StorageAddressNotUnqualPtr      \<comment> \<open>line 46\<close>
  | OtherDiscriminatorNotInt64      \<comment> \<open>line 53\<close>
  | OtherDiscriminatorNotConstantInt \<comment> \<open>line 54, the checked cast to a constant integer\<close>
  | NotAFunctionType                \<comment> \<open>line 88\<close>
  | DiscriminatorNotConstant        \<comment> \<open>line 95, the checked cast to a constant\<close>
  | NotAFunctionDecl                \<comment> \<open>line 103, the checked cast to a function declaration\<close>

subsection \<open>The Signing Schema\<close>

text \<open>
  Modelled from the spec: the authentication mode and the discrimination kind of a Signing
  Schema, whose declarations are not among the sources. The spec lists the modes
  SignAndAuthenticate, SignOnly and StripOnly, and for the other discrimination the kind
  "none" and unnamed other kinds; the unnamed kinds carry a number here.
\<close>

datatype AuthenticationMode = SignAndAuthenticate | SignOnly | StripOnly

datatype DiscriminationKind = NoDiscrimination | OtherKind nat

text \<open>
  Modelled from the spec: the Signing Schema (the class behind
  \<^verbatim>\<open>getCodeGenOpts().PointerAuth.FunctionPointers\<close>, declared outside the sources), with the five
  fields of the spec's data model. The key is the \<^verbatim>\<open>unsigned\<close> that
  \<^verbatim>\<open>getConstantSignedPointer\<close> receives.
\<close>

record PointerAuthSchema =
  enabled :: bool
  key :: "32 word"
  mode :: AuthenticationMode
  addressDiscrimination :: bool
  otherDiscrimination :: DiscriminationKind

definition isAddressDiscriminated :: "PointerAuthSchema \<Rightarrow> bool" where
  "isAddressDiscriminated Schema = addressDiscrimination Schema"

definition hasOtherDiscrimination :: "PointerAuthSchema \<Rightarrow> bool" where
  "hasOtherDiscrimination Schema = (otherDiscrimination Schema \<noteq> NoDiscrimination)"

text \<open>
  The path \<^verbatim>\<open>getCodeGenOpts().PointerAuth.FunctionPointers\<close> of the source. The module is an
  extensible record: whatever else a code generation module holds is its \<open>more\<close> part,
  which no function of this file reads.
\<close>

record PointerAuthOptions =
  FunctionPointers :: PointerAuthSchema

record CodeGenOptions =
  PointerAuth :: PointerAuthOptions

record CodeGenModule =
  CodeGenOpts :: CodeGenOptions

subsection \<open>Semantic types and declarations\<close>

text \<open>
  Modelled from the spec: the semantic types, as far as the entry point classifies them:
  a function type, a pointer or a reference to some type, or any other type. A function
  pointer type is a pointer to a function type, a function reference type a reference to one.
\<close>

datatype QualType =
    BuiltinType string
  | FunctionProtoType QualType "QualType list"
  | PointerType QualType
  | ReferenceType QualType

fun isFunctionType :: "QualType \<Rightarrow> bool" where
  "isFunctionType (FunctionProtoType R Ps) = True"
| "isFunctionType T = False"

fun isFunctionReferenceType :: "QualType \<Rightarrow> bool" where
  "isFunctionReferenceType (ReferenceType T) = isFunctionType T"
| "isFunctionReferenceType T = False"

fun isFunctionPointerType :: "QualType \<Rightarrow> bool" where
  "isFunctionPointerType (PointerType T) = isFunctionType T"
| "isFunctionPointerType T = False"

text \<open>
  Modelled from the spec: a declaration with its semantic type; only a function declaration
  passes the checked cast of the second entry point.
\<close>

datatype Decl = FunctionDecl string QualType | VarDecl string QualType

datatype GlobalDecl = GlobalDecl (getDecl: Decl)

subsection \<open>Constants of the intermediate representation\<close>

text \<open>
  Modelled from the spec: the types and constants of the intermediate representation, which
  the sources use and do not declare. A constant is a global symbol, an integer constant of
  some integer type, the null pointer of an address space, an undefined value of any type,
  a zero-cost pointer cast of a constant to a pointer type, or a signed pointer constant
  with the four fields of the spec's data model.
\<close>

datatype Type = IntegerTy nat | PointerTy nat | VoidTy

datatype Constant =
    GlobalValue string nat
  | ConstantInt Type int
  | ConstantPointerNull nat
  | UndefValue Type
  | PointerCast Constant Type
  | ConstantPtrAuth (basePointer: Constant) (keyConstant: Constant)
      (integerDiscriminator: Constant) (addressDiscriminator: Constant)

datatype Value = ConstantValue Constant | InstructionValue string

text \<open>
  Modelled from the spec: the three types of the module's type cache that the source names
  and does not declare: the 32-bit and the 64-bit integer type and the pointer type, with
  the type of a constant and the null value of a type.
\<close>

definition Int32Ty :: Type where
  "Int32Ty = IntegerTy 32"

definition Int64Ty :: Type where
  "Int64Ty = IntegerTy 64"

definition UnqualPtrTy :: Type where
  "UnqualPtrTy = PointerTy 0"

fun getType :: "Constant \<Rightarrow> Type" where
  "getType (GlobalValue n as) = PointerTy as"
| "getType (ConstantInt ty v) = ty"
| "getType (ConstantPointerNull as) = PointerTy as"
| "getType (UndefValue ty) = ty"
| "getType (PointerCast c ty) = ty"
| "getType (ConstantPtrAuth p k d a) = getType p"

fun getNullValue :: "Type \<Rightarrow> Constant" where
  "getNullValue (PointerTy as) = ConstantPointerNull as"
| "getNullValue ty = ConstantInt ty 0"

text \<open>
  Modelled from the spec: \<^verbatim>\<open>stripPointerCasts\<close>, which strips all non-semantic pointer casts
  from a constant and leaves every other constant as it is.
\<close>

fun stripPointerCasts :: "Constant \<Rightarrow> Constant" where
  "stripPointerCasts (PointerCast c ty) = stripPointerCasts c"
| "stripPointerCasts c = c"


fun isPointerCast :: "Constant \<Rightarrow> bool" where
  "isPointerCast (PointerCast c ty) = True"
| "isPointerCast c = False"

text \<open>
  The checked casts of the source: each returns its argument when it is of the class asked
  for and aborts otherwise; the null-tolerant one passes an absent value on.
\<close>

fun cast_ConstantInt :: "Constant \<Rightarrow> error + Constant" where
  "cast_ConstantInt (ConstantInt ty v) = Inr (ConstantInt ty v)"
| "cast_ConstantInt c = Inl OtherDiscriminatorNotConstantInt"

fun cast_or_null_Constant :: "Value option \<Rightarrow> error + Constant option" where
  "cast_or_null_Constant None = Inr None"
| "cast_or_null_Constant (Some (ConstantValue c)) = Inr (Some c)"
| "cast_or_null_Constant (Some (InstructionValue n)) = Inl DiscriminatorNotConstant"

subsection \<open>The Pointer-Authentication Descriptor\<close>

text \<open>
  Modelled from the spec: the Descriptor \<^verbatim>\<open>CGPointerAuthInfo\<close>, declared outside the sources,
  as the tagged variant of the spec: the inert sentinel that the default constructor builds
  and that tests false, or a descriptor of five fields that tests true.
\<close>

datatype CGPointerAuthInfo =
    Inert
  | AuthInfo (getKey: "32 word") (getAuthenticationMode: AuthenticationMode)
      (isIsaPointer: bool) (authenticatesNull: bool) (getDiscriminator: "Value option")

subsection \<open>The functions of the source\<close>

definition getFunctionPointerAuthInfo ::
  "'a CodeGenModule_scheme \<Rightarrow> QualType \<Rightarrow> error + CGPointerAuthInfo" where
  "getFunctionPointerAuthInfo CGM T =
     (let Schema = FunctionPointers (PointerAuth (CodeGenOpts CGM)) in
      if \<not> enabled Schema then Inr Inert
      else if isAddressDiscriminated Schema then Inl AddressDiscriminatedSchema
      else if hasOtherDiscrimination Schema then Inl OtherDiscriminationSchema
      else Inr (AuthInfo (key Schema) (mode Schema) False False None))"

definition buildConstantAddress ::
  "'a CodeGenModule_scheme \<Rightarrow> Constant \<Rightarrow> 32 word \<Rightarrow> Constant option \<Rightarrow> Constant option
     \<Rightarrow> error + Constant" where
  "buildConstantAddress CGM Pointer Key StorageAddress OtherDiscriminator =
     (case (case StorageAddress of
              Some sa \<Rightarrow> if getType sa = UnqualPtrTy then Inr sa
                         else Inl StorageAddressNotUnqualPtr
            | None \<Rightarrow> Inr (getNullValue UnqualPtrTy)) of
        Inl e \<Rightarrow> Inl e
      | Inr AddressDiscriminator \<Rightarrow>
          (case (case OtherDiscriminator of
                   Some od \<Rightarrow> if getType od = Int64Ty then cast_ConstantInt od
                              else Inl OtherDiscriminatorNotInt64
                 | None \<Rightarrow> Inr (ConstantInt Int64Ty 0)) of
             Inl e \<Rightarrow> Inl e
           | Inr IntegerDiscriminator \<Rightarrow>
               Inr (ConstantPtrAuth Pointer (ConstantInt Int32Ty (uint Key))
                      IntegerDiscriminator AddressDiscriminator)))"

definition getConstantSignedPointer ::
  "'a CodeGenModule_scheme \<Rightarrow> Constant \<Rightarrow> 32 word \<Rightarrow> Constant option \<Rightarrow> Constant option
     \<Rightarrow> error + Constant" where
  "getConstantSignedPointer CGM Pointer Key StorageAddress OtherDiscriminator =
     (let Stripped = stripPointerCasts Pointer in
      buildConstantAddress CGM Stripped Key StorageAddress OtherDiscriminator)"

definition getFunctionPointer ::
  "'a CodeGenModule_scheme \<Rightarrow> Constant \<Rightarrow> QualType \<Rightarrow> GlobalDecl \<Rightarrow> error + Constant" where
  "getFunctionPointer CGM Pointer FunctionType GD =
     (if \<not> (isFunctionType FunctionType \<or> isFunctionReferenceType FunctionType \<or>
             isFunctionPointerType FunctionType)
      then Inl NotAFunctionType
      else case getFunctionPointerAuthInfo CGM FunctionType of
             Inl e \<Rightarrow> Inl e
           | Inr Inert \<Rightarrow> Inr Pointer
           | Inr (AuthInfo k m isa an disc) \<Rightarrow>
               (case cast_or_null_Constant disc of
                  Inl e \<Rightarrow> Inl e
                | Inr d \<Rightarrow> getConstantSignedPointer CGM Pointer k None d))"

text \<open>
  The second entry point takes the raw pointer of a declaration from a collaborator, which
  is a parameter here.
\<close>

definition getFunctionPointerOfDecl ::
  "(GlobalDecl \<Rightarrow> Type \<Rightarrow> Constant) \<Rightarrow> 'a CodeGenModule_scheme \<Rightarrow> GlobalDecl \<Rightarrow> Type
     \<Rightarrow> error + Constant" where
  "getFunctionPointerOfDecl getRawFunctionPointer CGM GD Ty =
     (case getDecl GD of
        FunctionDecl n FuncType \<Rightarrow>
          getFunctionPointer CGM (getRawFunctionPointer GD Ty) FuncType GD
      | VarDecl n T \<Rightarrow> Inl NotAFunctionDecl)"


subsection \<open>Preconditions of the spec and inputs of the examples\<close>

text \<open>
  The spec gives the builder an optional pointer-typed storage address and an optional
  64-bit integer constant as other discriminator, and the entry point a function, function
  reference or function pointer type. These predicates say so for the inputs of the model.
\<close>

fun validStorageAddress :: "Constant option \<Rightarrow> bool" where
  "validStorageAddress None = True"
| "validStorageAddress (Some sa) = (getType sa = UnqualPtrTy)"

fun isConstantInt :: "Constant \<Rightarrow> bool" where
  "isConstantInt (ConstantInt ty v) = True"
| "isConstantInt c = False"

fun validOtherDiscriminator :: "Constant option \<Rightarrow> bool" where
  "validOtherDiscriminator None = True"
| "validOtherDiscriminator (Some od) = (getType od = Int64Ty \<and> isConstantInt od)"

definition isFunctionLike :: "QualType \<Rightarrow> bool" where
  "isFunctionLike T =
     (isFunctionType T \<or> isFunctionReferenceType T \<or> isFunctionPointerType T)"

definition schemaOf :: "'a CodeGenModule_scheme \<Rightarrow> PointerAuthSchema" where
  "schemaOf CGM = FunctionPointers (PointerAuth (CodeGenOpts CGM))"

definition moduleOf :: "PointerAuthSchema \<Rightarrow> CodeGenModule" where
  "moduleOf Schema =
     \<lparr>CodeGenOpts = \<lparr>PointerAuth = \<lparr>FunctionPointers = Schema\<rparr>\<rparr>\<rparr>"

definition schema :: "bool \<Rightarrow> 32 word \<Rightarrow> AuthenticationMode \<Rightarrow> bool \<Rightarrow> DiscriminationKind
    \<Rightarrow> PointerAuthSchema" where
  "schema en k m ad od =
     \<lparr>enabled = en, key = k, mode = m, addressDiscrimination = ad,
      otherDiscrimination = od\<rparr>"

definition intFnType :: QualType where
  "intFnType = FunctionProtoType (BuiltinType ''int'') []"

definition declF :: GlobalDecl where
  "declF = GlobalDecl (FunctionDecl ''f'' intFnType)"

definition declG :: GlobalDecl where
  "declG = GlobalDecl (VarDecl ''g'' (BuiltinType ''int''))"

definition ptrF :: Constant where
  "ptrF = GlobalValue ''f'' 0"

definition slot :: Constant where
  "slot = GlobalValue ''slot'' 0"

section \<open>Properties\<close>

subsection \<open>Shared facts\<close>



lemma stripPointerCasts_id: "\<not> isPointerCast c \<Longrightarrow> stripPointerCasts c = c"
  by (cases c) simp_all

lemma buildConstantAddress_Inr:
  assumes "buildConstantAddress CGM p k sa od = Inr r"
  shows "r = ConstantPtrAuth p (ConstantInt Int32Ty (uint k))
               (case od of None \<Rightarrow> ConstantInt Int64Ty 0 | Some c \<Rightarrow> c)
               (case sa of None \<Rightarrow> ConstantPointerNull 0 | Some a \<Rightarrow> a)"
proof (cases od)
  case None
  with assms show ?thesis
    by (auto simp: buildConstantAddress_def UnqualPtrTy_def split: option.splits if_splits)
next
  case (Some c)
  with assms show ?thesis
    by (cases c)
       (auto simp: buildConstantAddress_def UnqualPtrTy_def split: option.splits if_splits)
qed

lemma buildConstantAddress_valid:
  assumes "validStorageAddress sa" and "validOtherDiscriminator od"
  shows "\<exists>r. buildConstantAddress CGM p k sa od = Inr r"
proof (cases od)
  case None
  with assms show ?thesis
    by (cases sa) (simp_all add: buildConstantAddress_def)
next
  case (Some c)
  with assms show ?thesis
    by (cases sa; cases c) (simp_all add: buildConstantAddress_def)
qed

lemma getFunctionPointerAuthInfo_disabled:
  "(getFunctionPointerAuthInfo CGM T = Inr Inert) = (\<not> enabled (schemaOf CGM))"
  by (simp add: getFunctionPointerAuthInfo_def schemaOf_def Let_def)


subsection \<open>The Schema Resolver\<close>

text \<open>
  C2 (descriptor fidelity). With the function-pointer Signing Schema enabled, the only
  Descriptor that \<open>getFunctionPointerAuthInfo\<close> can return carries the key and the mode of
  the schema, is not an isa pointer, does not authenticate null and has no discriminator;
  and it does return that Descriptor when the schema keeps the invariant of its category
  (no address discrimination, no other discrimination).
\<close>

theorem getFunctionPointerAuthInfo_fidelity:
  assumes "enabled (schemaOf CGM)"
  shows "(\<forall>D. getFunctionPointerAuthInfo CGM T = Inr D \<longrightarrow>
            D = AuthInfo (key (schemaOf CGM)) (mode (schemaOf CGM)) False False None) \<and>
         (\<not> addressDiscrimination (schemaOf CGM) \<and>
          otherDiscrimination (schemaOf CGM) = NoDiscrimination \<longrightarrow>
            getFunctionPointerAuthInfo CGM T =
              Inr (AuthInfo (key (schemaOf CGM)) (mode (schemaOf CGM)) False False None))"
  using assms
  by (auto simp: getFunctionPointerAuthInfo_def schemaOf_def Let_def
        isAddressDiscriminated_def hasOtherDiscrimination_def split: if_splits)

theorem getFunctionPointerAuthInfo_fidelity_witness:
  "enabled (schemaOf (moduleOf (schema True 7 SignAndAuthenticate False NoDiscrimination))) \<and>
   getFunctionPointerAuthInfo
     (moduleOf (schema True 7 SignAndAuthenticate False NoDiscrimination)) intFnType =
     Inr (AuthInfo 7 SignAndAuthenticate False False None)"
proof -
  let ?M = "moduleOf (schema True 7 SignAndAuthenticate False NoDiscrimination)"
  have en: "enabled (schemaOf ?M)"
    by (simp add: schemaOf_def moduleOf_def schema_def)
  have inv: "\<not> addressDiscrimination (schemaOf ?M) \<and>
             otherDiscrimination (schemaOf ?M) = NoDiscrimination"
    by (simp add: schemaOf_def moduleOf_def schema_def)
  have fields: "key (schemaOf ?M) = 7 \<and> mode (schemaOf ?M) = SignAndAuthenticate"
    by (simp add: schemaOf_def moduleOf_def schema_def)
  from getFunctionPointerAuthInfo_fidelity [OF en, of intFnType] inv
  have "getFunctionPointerAuthInfo ?M intFnType =
          Inr (AuthInfo (key (schemaOf ?M)) (mode (schemaOf ?M)) False False None)"
    by blast
  with en fields show ?thesis by simp
qed

text \<open>
  C7 (invalid category usage is fatal). With the schema enabled, a request for address
  discrimination fails the first assertion and a request for any other discrimination
  fails the second, so that \<open>getFunctionPointerAuthInfo\<close> returns no Descriptor; with
  neither request, no assertion fails and a Descriptor is returned.
\<close>

theorem getFunctionPointerAuthInfo_invalid_schema:
  assumes "enabled (schemaOf CGM)"
  shows "(addressDiscrimination (schemaOf CGM) \<longrightarrow>
            getFunctionPointerAuthInfo CGM T = Inl AddressDiscriminatedSchema) \<and>
         (\<not> addressDiscrimination (schemaOf CGM) \<and>
          otherDiscrimination (schemaOf CGM) \<noteq> NoDiscrimination \<longrightarrow>
            getFunctionPointerAuthInfo CGM T = Inl OtherDiscriminationSchema) \<and>
         (\<not> addressDiscrimination (schemaOf CGM) \<and>
          otherDiscrimination (schemaOf CGM) = NoDiscrimination \<longrightarrow>
            (\<exists>D. getFunctionPointerAuthInfo CGM T = Inr D))"
  using assms
  by (simp add: getFunctionPointerAuthInfo_def schemaOf_def Let_def
        isAddressDiscriminated_def hasOtherDiscrimination_def)

theorem getFunctionPointerAuthInfo_invalid_schema_witness:
  "getFunctionPointerAuthInfo
     (moduleOf (schema True 1 SignAndAuthenticate True NoDiscrimination)) intFnType =
     Inl AddressDiscriminatedSchema \<and>
   getFunctionPointerAuthInfo
     (moduleOf (schema True 1 SignAndAuthenticate False (OtherKind 1))) intFnType =
     Inl OtherDiscriminationSchema \<and>
   getFunctionPointerAuthInfo
     (moduleOf (schema True 1 SignAndAuthenticate False NoDiscrimination)) intFnType \<noteq>
     Inl AddressDiscriminatedSchema"
proof -
  let ?A = "moduleOf (schema True 1 SignAndAuthenticate True NoDiscrimination)"
  let ?B = "moduleOf (schema True 1 SignAndAuthenticate False (OtherKind 1))"
  let ?C = "moduleOf (schema True 1 SignAndAuthenticate False NoDiscrimination)"
  have a: "enabled (schemaOf ?A) \<and> addressDiscrimination (schemaOf ?A)"
    by (simp add: schemaOf_def moduleOf_def schema_def)
  have b: "enabled (schemaOf ?B) \<and> \<not> addressDiscrimination (schemaOf ?B) \<and>
           otherDiscrimination (schemaOf ?B) \<noteq> NoDiscrimination"
    by (simp add: schemaOf_def moduleOf_def schema_def)
  have c: "enabled (schemaOf ?C) \<and> \<not> addressDiscrimination (schemaOf ?C) \<and>
           otherDiscrimination (schemaOf ?C) = NoDiscrimination"
    by (simp add: schemaOf_def moduleOf_def schema_def)
  from a getFunctionPointerAuthInfo_invalid_schema [of ?A intFnType]
  have ra: "getFunctionPointerAuthInfo ?A intFnType = Inl AddressDiscriminatedSchema"
    by blast
  from b getFunctionPointerAuthInfo_invalid_schema [of ?B intFnType]
  have rb: "getFunctionPointerAuthInfo ?B intFnType = Inl OtherDiscriminationSchema"
    by blast
  from c getFunctionPointerAuthInfo_invalid_schema [of ?C intFnType]
  obtain D where "getFunctionPointerAuthInfo ?C intFnType = Inr D"
    by blast
  then have rc: "getFunctionPointerAuthInfo ?C intFnType \<noteq> Inl AddressDiscriminatedSchema"
    by simp
  from ra rb rc show ?thesis by blast
qed

subsection \<open>The Signed-Constant Builder\<close>



text \<open>
  C5 (default substitution). With no storage address and no other discriminator,
  \<open>getConstantSignedPointer\<close> returns a signed pointer constant whose address
  discriminator is the null value of the pointer type and whose integer discriminator is
  the constant 0 of the 64-bit integer type.
\<close>

theorem getConstantSignedPointer_defaults:
  "getConstantSignedPointer CGM P k None None =
     Inr (ConstantPtrAuth (stripPointerCasts P) (ConstantInt (IntegerTy 32) (uint k))
            (ConstantInt (IntegerTy 64) 0) (ConstantPointerNull 0)) \<and>
   ConstantPointerNull 0 = getNullValue UnqualPtrTy"
  by (simp add: getConstantSignedPointer_def buildConstantAddress_def
        UnqualPtrTy_def Int64Ty_def Int32Ty_def)

theorem getConstantSignedPointer_defaults_witness:
  "getConstantSignedPointer (moduleOf (schema True 2 SignOnly False NoDiscrimination))
     ptrF 2 None None =
     Inr (ConstantPtrAuth ptrF (ConstantInt (IntegerTy 32) 2)
            (ConstantInt (IntegerTy 64) 0) (ConstantPointerNull 0))"
  using getConstantSignedPointer_defaults
          [of "moduleOf (schema True 2 SignOnly False NoDiscrimination)" ptrF 2]
  by (simp add: ptrF_def)

text \<open>
  C6 (explicit override). Whenever \<open>getConstantSignedPointer\<close> returns a signed pointer
  constant, a storage address that was supplied is its address discriminator and an other
  discriminator that was supplied is its integer discriminator, both unmodified; and it
  does return one whenever the storage address, if any, has the pointer type and the
  other discriminator, if any, is an integer constant of the 64-bit integer type.
\<close>

theorem getConstantSignedPointer_explicit_override:
  "(\<forall>r. getConstantSignedPointer CGM P k sa od = Inr r \<longrightarrow>
      (\<forall>a. sa = Some a \<longrightarrow> addressDiscriminator r = a) \<and>
      (\<forall>c. od = Some c \<longrightarrow> integerDiscriminator r = c)) \<and>
   (validStorageAddress sa \<and> validOtherDiscriminator od \<longrightarrow>
      (\<exists>r. getConstantSignedPointer CGM P k sa od = Inr r))"
proof -
  have "(\<forall>a. sa = Some a \<longrightarrow> addressDiscriminator r = a) \<and>
        (\<forall>c. od = Some c \<longrightarrow> integerDiscriminator r = c)"
    if "getConstantSignedPointer CGM P k sa od = Inr r" for r
  proof -
    from that have "buildConstantAddress CGM (stripPointerCasts P) k sa od = Inr r"
      by (simp add: getConstantSignedPointer_def)
    from buildConstantAddress_Inr [OF this] show ?thesis
      by simp
  qed
  moreover have "\<exists>r. getConstantSignedPointer CGM P k sa od = Inr r"
    if "validStorageAddress sa" and "validOtherDiscriminator od"
    using buildConstantAddress_valid [OF that]
    by (simp add: getConstantSignedPointer_def)
  ultimately show ?thesis by blast
qed

theorem getConstantSignedPointer_explicit_override_witness:
  "validStorageAddress (Some slot) \<and> validOtherDiscriminator (Some (ConstantInt Int64Ty 42)) \<and>
   getConstantSignedPointer (moduleOf (schema True 3 SignOnly False NoDiscrimination))
     ptrF 3 (Some slot) (Some (ConstantInt Int64Ty 42)) =
     Inr (ConstantPtrAuth ptrF (ConstantInt Int32Ty 3) (ConstantInt Int64Ty 42) slot)"
proof -
  let ?M = "moduleOf (schema True 3 SignOnly False NoDiscrimination)"
  have v: "validStorageAddress (Some slot) \<and>
           validOtherDiscriminator (Some (ConstantInt Int64Ty 42))"
    by (simp add: slot_def UnqualPtrTy_def)
  from v getConstantSignedPointer_explicit_override
           [of ?M ptrF 3 "Some slot" "Some (ConstantInt Int64Ty 42)"]
  obtain r where r: "getConstantSignedPointer ?M ptrF 3 (Some slot)
                       (Some (ConstantInt Int64Ty 42)) = Inr r"
    and "addressDiscriminator r = slot" and "integerDiscriminator r = ConstantInt Int64Ty 42"
    by blast
  have "getConstantSignedPointer ?M ptrF 3 (Some slot) (Some (ConstantInt Int64Ty 42)) =
          Inr (ConstantPtrAuth ptrF (ConstantInt Int32Ty 3) (ConstantInt Int64Ty 42) slot)"
    by (simp add: getConstantSignedPointer_def buildConstantAddress_def ptrF_def slot_def
          UnqualPtrTy_def Int64Ty_def)
  with v show ?thesis by simp
qed


subsection \<open>The entry point\<close>

text \<open>
  C1 (identity law). For a function, function reference or function pointer type whose
  resolved Descriptor is the inert sentinel, \<open>getFunctionPointer\<close> returns the pointer
  it was given, unchanged.
\<close>

theorem getFunctionPointer_identity:
  assumes "isFunctionLike T"
    and "getFunctionPointerAuthInfo CGM T = Inr Inert"
  shows "getFunctionPointer CGM P T GD = Inr P"
  using assms by (simp add: getFunctionPointer_def isFunctionLike_def)

theorem getFunctionPointer_identity_witness:
  "isFunctionLike intFnType \<and>
   getFunctionPointerAuthInfo
     (moduleOf (schema False 0 SignAndAuthenticate False NoDiscrimination)) intFnType =
     Inr Inert \<and>
   getFunctionPointer (moduleOf (schema False 0 SignAndAuthenticate False NoDiscrimination))
     (PointerCast ptrF (PointerTy 1)) intFnType declF = Inr (PointerCast ptrF (PointerTy 1))"
proof -
  let ?M = "moduleOf (schema False 0 SignAndAuthenticate False NoDiscrimination)"
  have t: "isFunctionLike intFnType"
    by (simp add: isFunctionLike_def intFnType_def)
  have "\<not> enabled (schemaOf ?M)"
    by (simp add: schemaOf_def moduleOf_def schema_def)
  then have i: "getFunctionPointerAuthInfo ?M intFnType = Inr Inert"
    by (simp add: getFunctionPointerAuthInfo_disabled)
  from getFunctionPointer_identity [OF t i] t i show ?thesis
    by simp
qed

text \<open>
  C4 (end-to-end scenario B), as the claim states it, fails at a pointer under a zero-cost
  cast: the base pointer of the result is the function symbol under the cast, not the
  pointer that was passed.
\<close>

theorem getFunctionPointer_scenarioB_counterexample:
  "getFunctionPointer (moduleOf (schema True 0 SignAndAuthenticate False NoDiscrimination))
     (PointerCast (GlobalValue ''f'' 0) (PointerTy 1))
     (FunctionProtoType (BuiltinType ''int'') [])
     (GlobalDecl (FunctionDecl ''f'' (FunctionProtoType (BuiltinType ''int'') []))) =
     Inr (ConstantPtrAuth (GlobalValue ''f'' 0) (ConstantInt (IntegerTy 32) 0)
            (ConstantInt (IntegerTy 64) 0) (ConstantPointerNull 0)) \<and>
   basePointer (ConstantPtrAuth (GlobalValue ''f'' 0) (ConstantInt (IntegerTy 32) 0)
                  (ConstantInt (IntegerTy 64) 0) (ConstantPointerNull 0)) \<noteq>
     PointerCast (GlobalValue ''f'' 0) (PointerTy 1)"
  by (simp add: getFunctionPointer_def getFunctionPointerAuthInfo_def Let_def
        isAddressDiscriminated_def hasOtherDiscrimination_def moduleOf_def schema_def
        getConstantSignedPointer_def buildConstantAddress_def
        UnqualPtrTy_def Int64Ty_def Int32Ty_def)

text \<open>
  C4, amended. For a function, function reference or function pointer type and a schema
  enabled with key 0 and mode SignAndAuthenticate, without address discrimination and
  without other discrimination, \<open>getFunctionPointer\<close> returns the signed pointer constant
  whose base pointer is the cast-stripped raw pointer (the raw pointer itself when it is
  not a cast), whose key is 0, whose integer discriminator is the 64-bit integer 0 and
  whose address discriminator is the null pointer.
\<close>

theorem getFunctionPointer_scenarioB:
  assumes "isFunctionLike T"
    and "enabled (schemaOf CGM)"
    and "key (schemaOf CGM) = 0"
    and "mode (schemaOf CGM) = SignAndAuthenticate"
    and "\<not> addressDiscrimination (schemaOf CGM)"
    and "otherDiscrimination (schemaOf CGM) = NoDiscrimination"
  shows "getFunctionPointer CGM rawPtr T GD =
           Inr (ConstantPtrAuth (stripPointerCasts rawPtr) (ConstantInt (IntegerTy 32) 0)
                  (ConstantInt (IntegerTy 64) 0) (ConstantPointerNull 0)) \<and>
         (\<not> isPointerCast rawPtr \<longrightarrow> stripPointerCasts rawPtr = rawPtr)"
proof -
  from assms have "getFunctionPointerAuthInfo CGM T =
                     Inr (AuthInfo 0 SignAndAuthenticate False False None)"
    by (simp add: getFunctionPointerAuthInfo_def schemaOf_def Let_def
          isAddressDiscriminated_def hasOtherDiscrimination_def)
  with assms(1) have "getFunctionPointer CGM rawPtr T GD =
                        getConstantSignedPointer CGM rawPtr 0 None None"
    by (simp add: getFunctionPointer_def isFunctionLike_def)
  then have "getFunctionPointer CGM rawPtr T GD =
           Inr (ConstantPtrAuth (stripPointerCasts rawPtr) (ConstantInt (IntegerTy 32) 0)
                  (ConstantInt (IntegerTy 64) 0) (ConstantPointerNull 0))"
    by (simp add: getConstantSignedPointer_def buildConstantAddress_def
          UnqualPtrTy_def Int64Ty_def Int32Ty_def)
  then show ?thesis
    by (simp add: stripPointerCasts_id)
qed

theorem getFunctionPointer_scenarioB_witness:
  "isFunctionLike intFnType \<and> \<not> isPointerCast ptrF \<and>
   getFunctionPointer (moduleOf (schema True 0 SignAndAuthenticate False NoDiscrimination))
     ptrF intFnType declF =
     Inr (ConstantPtrAuth ptrF (ConstantInt (IntegerTy 32) 0)
            (ConstantInt (IntegerTy 64) 0) (ConstantPointerNull 0))"
proof -
  let ?M = "moduleOf (schema True 0 SignAndAuthenticate False NoDiscrimination)"
  have t: "isFunctionLike intFnType"
    by (simp add: isFunctionLike_def intFnType_def)
  have en: "enabled (schemaOf ?M)"
    and k: "key (schemaOf ?M) = 0"
    and m: "mode (schemaOf ?M) = SignAndAuthenticate"
    and ad: "\<not> addressDiscrimination (schemaOf ?M)"
    and od: "otherDiscrimination (schemaOf ?M) = NoDiscrimination"
    by (simp_all add: schemaOf_def moduleOf_def schema_def)
  have nc: "\<not> isPointerCast ptrF"
    by (simp add: ptrF_def)
  from getFunctionPointer_scenarioB [OF t en k m ad od, of ptrF declF] nc t
  show ?thesis by simp
qed

text \<open>
  C8 (invalid input type is fatal). \<open>getFunctionPointer\<close> fails the assertion on its type
  argument, returning no value, exactly when the type is not a function type, a function
  reference type or a function pointer type.
\<close>

theorem getFunctionPointer_type_assertion:
  "(\<not> isFunctionLike T \<longrightarrow> getFunctionPointer CGM P T GD = Inl NotAFunctionType) \<and>
   (isFunctionLike T \<longrightarrow> getFunctionPointer CGM P T GD \<noteq> Inl NotAFunctionType)"
proof -
  have "getFunctionPointer CGM P T GD = Inl NotAFunctionType" if "\<not> isFunctionLike T"
    using that by (simp add: getFunctionPointer_def isFunctionLike_def)
  moreover have "getFunctionPointer CGM P T GD \<noteq> Inl NotAFunctionType" if "isFunctionLike T"
  proof (cases "getFunctionPointerAuthInfo CGM T")
    case (Inl e)
    then have "e = AddressDiscriminatedSchema \<or> e = OtherDiscriminationSchema"
      by (auto simp: getFunctionPointerAuthInfo_def Let_def split: if_splits)
    with Inl that show ?thesis
      by (auto simp: getFunctionPointer_def isFunctionLike_def)
  next
    case (Inr D)
    then have "D = Inert \<or> (\<exists>k m. D = AuthInfo k m False False None)"
      by (auto simp: getFunctionPointerAuthInfo_def Let_def split: if_splits)
    with Inr that show ?thesis
      by (auto simp: getFunctionPointer_def isFunctionLike_def
            getConstantSignedPointer_def buildConstantAddress_def)
  qed
  ultimately show ?thesis by blast
qed

theorem getFunctionPointer_type_assertion_witness:
  "\<not> isFunctionLike (PointerType (BuiltinType ''int'')) \<and>
   getFunctionPointer (moduleOf (schema True 0 SignAndAuthenticate False NoDiscrimination))
     ptrF (PointerType (BuiltinType ''int'')) declG = Inl NotAFunctionType \<and>
   isFunctionLike (PointerType intFnType) \<and>
   getFunctionPointer (moduleOf (schema True 0 SignAndAuthenticate False NoDiscrimination))
     ptrF (PointerType intFnType) declF \<noteq> Inl NotAFunctionType"
proof -
  let ?M = "moduleOf (schema True 0 SignAndAuthenticate False NoDiscrimination)"
  have n: "\<not> isFunctionLike (PointerType (BuiltinType ''int''))"
    by (simp add: isFunctionLike_def)
  have y: "isFunctionLike (PointerType intFnType)"
    by (simp add: isFunctionLike_def intFnType_def)
  from n getFunctionPointer_type_assertion [of "PointerType (BuiltinType ''int'')" ?M ptrF declG]
  have a: "getFunctionPointer ?M ptrF (PointerType (BuiltinType ''int'')) declG =
             Inl NotAFunctionType"
    by blast
  from y getFunctionPointer_type_assertion [of "PointerType intFnType" ?M ptrF declF]
  have b: "getFunctionPointer ?M ptrF (PointerType intFnType) declF \<noteq> Inl NotAFunctionType"
    by blast
  from n y a b show ?thesis by blast
qed

text \<open>
  C10 (the declaration does not interfere). The result of \<open>getFunctionPointer\<close> is the
  same for any two declaration arguments: it depends on the pointer, the type and the
  schema of the module only.
\<close>

theorem getFunctionPointer_GlobalDecl_irrelevant:
  "getFunctionPointer CGM P T GD1 = getFunctionPointer CGM P T GD2"
  by (simp add: getFunctionPointer_def)

theorem getFunctionPointer_GlobalDecl_irrelevant_witness:
  "getFunctionPointer (moduleOf (schema True 0 SignAndAuthenticate False NoDiscrimination))
     ptrF intFnType declF =
   getFunctionPointer (moduleOf (schema True 0 SignAndAuthenticate False NoDiscrimination))
     ptrF intFnType declG"
  by (rule getFunctionPointer_GlobalDecl_irrelevant)

end
